theory Spec2Isabelle
  imports Complex_Main
begin

section \<open>The Edit Breakdown add-on: thumbnail loading and layout\<close>

text \<open>
  This theory embeds the thumbnail part of \<^verbatim>\<open>__init__.py\<close>: the module globals
  \<^verbatim>\<open>thumbnail_images\<close> and \<^verbatim>\<open>thumbnail_size\<close>, the loader \<^verbatim>\<open>load_edit_thumbnails\<close> and the
  layout function \<^verbatim>\<open>fit_thumbnails_in_region\<close> with its nested \<^verbatim>\<open>calculate_spacing\<close>.

  Python integers are \<^typ>\<open>int\<close>. Python floats are modelled as \<^typ>\<open>real\<close>: every
  arithmetic operation is exact, so rounding error, overflow to infinity and NaN are outside
  the model. \<^verbatim>\<open>math.ceil\<close> and \<^verbatim>\<open>math.floor\<close> return integers, as in Python 3.
  A raised exception is a value: an outcome is either \<open>Returned\<close> with the globals at the
  return, or \<open>Raised\<close> with the exception and the globals at the raise.
  Calls of \<^verbatim>\<open>log.debug\<close> read no global and change none; they are left out of the layout
  function. The loader's warning and info records are kept, since its callers' users see them.
\<close>

subsection \<open>Data\<close>

datatype py_error =
    ZeroDivisionError
  | ValueError
  | TypeError
  | AttributeError
  | FileNotFoundError
  | NotADirectoryError
  | PermissionError
  | Exception

datatype 'a outcome = Returned 'a | Raised py_error 'a

fun returned :: "'a outcome \<Rightarrow> bool" where
  "returned (Returned s) = True"
| "returned (Raised e s) = False"

fun globals_of :: "'a outcome \<Rightarrow> 'a" where
  "globals_of (Returned s) = s"
| "globals_of (Raised e s) = s"

text \<open>A Blender image datablock, as far as the add-on reads it: \<^verbatim>\<open>size[0]\<close>, \<^verbatim>\<open>size[1]\<close>.\<close>

record Image =
  image_size :: "int \<times> int"

text \<open>
  Class \<^verbatim>\<open>ThumbnailImage\<close>. The class attribute \<^verbatim>\<open>id_image = None\<close> is \<open>None\<close>; the class
  attribute \<^verbatim>\<open>name = ""\<close> is \<open>None\<close>, and a name set by the loader is the integer it parsed.
\<close>

record ThumbnailImage =
  id_image :: "Image option"
  pos :: "real \<times> real"
  name :: "int option"

text \<open>The module globals.\<close>

record addon_globals =
  thumbnail_images :: "ThumbnailImage list"
  thumbnail_size :: "real \<times> real"

text \<open>What the layout reads of \<^verbatim>\<open>bpy.context\<close>: the region, the overlap preference and
  the regions of the area.\<close>

record Region =
  rtype :: string
  width :: int
  height :: int

record bpy_context =
  region_width :: int
  region_height :: int
  use_region_overlap :: bool
  area_regions :: "Region list"

subsection \<open>Size of the region (lines 284 to 301)\<close>

text \<open>One turn of the loop over \<^verbatim>\<open>area.regions\<close>: three independent \<^verbatim>\<open>if\<close> statements on
  the locals \<open>(total_available_w, total_available_h, start_w)\<close>.\<close>

definition discount_region :: "int \<times> int \<times> int \<Rightarrow> Region \<Rightarrow> int \<times> int \<times> int" where
  "discount_region acc r =
     (case acc of (total_available_w, total_available_h, start_w) \<Rightarrow>
        let total_available_h =
              (if rtype r = ''HEADER'' \<and> height r > 1
               then total_available_h - height r else total_available_h);
            total_available_w =
              (if rtype r = ''UI'' \<and> width r > 1
               then total_available_w - width r else total_available_w)
        in if rtype r = ''TOOLS'' \<and> width r > 1
           then (total_available_w - width r, total_available_h, width r)
           else (total_available_w, total_available_h, start_w))"

definition region_sizing :: "bpy_context \<Rightarrow> int \<times> int \<times> int" where
  "region_sizing c =
     (if use_region_overlap c
      then foldl discount_region (region_width c, region_height c, 0) (area_regions c)
      else (region_width c, region_height c, 0))"

subsection \<open>The steps of the layout\<close>

text \<open>Line 326: \<^verbatim>\<open>math.sqrt(thumbnail_area / (original_image_w * original_image_h))\<close>.\<close>

definition initial_scale :: "int \<Rightarrow> int \<Rightarrow> real \<Rightarrow> py_error + real" where
  "initial_scale original_image_w original_image_h thumbnail_area =
     (if original_image_w * original_image_h = 0 then Inl ZeroDivisionError
      else if thumbnail_area / real_of_int (original_image_w * original_image_h) < 0
      then Inl ValueError
      else Inr (sqrt (thumbnail_area / real_of_int (original_image_w * original_image_h))))"

text \<open>Lines 331 and 332: the number of images per row and per column.\<close>

definition grid_dims :: "int \<Rightarrow> int \<Rightarrow> real \<Rightarrow> py_error + int \<times> int" where
  "grid_dims available_w num_images thumb_w =
     (if thumb_w = 0 then Inl ZeroDivisionError
      else let num_images_per_row = \<lceil>real_of_int available_w / thumb_w\<rceil>
           in if num_images_per_row = 0 then Inl ZeroDivisionError
              else Inr (num_images_per_row,
                        \<lceil>real_of_int num_images / real_of_int num_images_per_row\<rceil>))"

text \<open>Lines 340 to 343: the two checks against \<^verbatim>\<open>max_thumb_size\<close>, one after the other.\<close>

definition clamp_w :: "int \<Rightarrow> int \<Rightarrow> int \<Rightarrow> real \<Rightarrow> py_error + real" where
  "clamp_w original_image_w max_w num_images_per_row scale_factor =
     (if real_of_int original_image_w * scale_factor * real_of_int num_images_per_row
           > real_of_int max_w
      then (if original_image_w * num_images_per_row = 0 then Inl ZeroDivisionError
            else Inr (real_of_int max_w / real_of_int (original_image_w * num_images_per_row)))
      else Inr scale_factor)"

definition clamp_scale ::
  "int \<Rightarrow> int \<Rightarrow> int \<times> int \<Rightarrow> int \<Rightarrow> int \<Rightarrow> real \<Rightarrow> py_error + real" where
  "clamp_scale original_image_w original_image_h max_thumb_size
       num_images_per_row num_images_per_col scale_factor =
     (case clamp_w original_image_w (fst max_thumb_size) num_images_per_row scale_factor of
        Inl e \<Rightarrow> Inl e
      | Inr scale_factor \<Rightarrow>
          clamp_w original_image_h (snd max_thumb_size) num_images_per_col scale_factor)"

text \<open>Lines 351 to 367: the nested function; \<open>min_margin\<close> is the variable it closes over.\<close>

definition calculate_spacing :: "int \<Rightarrow> int \<Rightarrow> real \<Rightarrow> int \<Rightarrow> int \<times> int" where
  "calculate_spacing min_margin total_available thumb_size num_thumbs =
     (let available_space = real_of_int total_available - thumb_size * real_of_int num_thumbs;
          spacing =
            (if num_thumbs > 1
             then min \<lceil>(available_space - real_of_int min_margin) / real_of_int (num_thumbs - 1)\<rceil>
                      min_margin
             else 0);
          margin = \<lfloor>(available_space - real_of_int (spacing * (num_thumbs - 1))) / 2\<rfloor>
      in (margin, spacing))"

text \<open>
  Lines 382 to 388: the loop over the images. \<open>row_start\<close> is \<^verbatim>\<open>start_w + margins[0]\<close>,
  \<open>step_x\<close> is \<^verbatim>\<open>thumbnail_size[0] + spacing[0]\<close>, \<open>step_y\<close> is
  \<^verbatim>\<open>thumbnail_size[1] + spacing[1]\<close>; \<open>x\<close> and \<open>y\<close> are \<^verbatim>\<open>start_pos_x\<close> and \<^verbatim>\<open>start_pos_y\<close>.
\<close>

fun place_thumbnails ::
  "real \<Rightarrow> real \<Rightarrow> real \<Rightarrow> real \<Rightarrow> real \<Rightarrow> real \<Rightarrow> ThumbnailImage list \<Rightarrow> ThumbnailImage list"
where
  "place_thumbnails row_start step_x step_y last_start_pos_x x y [] = []"
| "place_thumbnails row_start step_x step_y last_start_pos_x x y (img # imgs) =
     img\<lparr>pos := (x, y)\<rparr> #
       (if x + step_x > last_start_pos_x
        then place_thumbnails row_start step_x step_y last_start_pos_x row_start (y - step_y) imgs
        else place_thumbnails row_start step_x step_y last_start_pos_x (x + step_x) y imgs)"

subsection \<open>\<^verbatim>\<open>fit_thumbnails_in_region\<close>\<close>

definition total_spacing :: "int \<times> int" where
  "total_spacing = (150, 150)"

definition min_margin :: int where
  "min_margin = 40"

definition fit_thumbnails_in_region :: "bpy_context \<Rightarrow> addon_globals \<Rightarrow> addon_globals outcome" where
  "fit_thumbnails_in_region c g =
     (let num_images = int (length (thumbnail_images g)) in
      if num_images = 0 then Returned g
      else
        case region_sizing c of (total_available_w, total_available_h, start_w) \<Rightarrow>
        let available_w = total_available_w - fst total_spacing;
            available_h = total_available_h - snd total_spacing;
            max_thumb_size = (total_available_w - min_margin, total_available_h - min_margin)
        in
        case id_image (hd (thumbnail_images g)) of
          None \<Rightarrow> Raised AttributeError g
        | Some im \<Rightarrow>
            let original_image_w = fst (image_size im);
                original_image_h = snd (image_size im)
            in
            if original_image_h = 0 then Raised ZeroDivisionError g
            else
              let available_area = available_w * available_h;
                  thumbnail_area = real_of_int available_area / real_of_int num_images
              in
              if thumbnail_area < 20 then Returned (g\<lparr>thumbnail_size := (0, 0)\<rparr>)
              else
                case initial_scale original_image_w original_image_h thumbnail_area of
                  Inl e \<Rightarrow> Raised e g
                | Inr scale_factor \<Rightarrow>
                    let g1 = g\<lparr>thumbnail_size :=
                                 (real_of_int original_image_w * scale_factor,
                                  real_of_int original_image_h * scale_factor)\<rparr>
                    in
                    case grid_dims available_w num_images (fst (thumbnail_size g1)) of
                      Inl e \<Rightarrow> Raised e g1
                    | Inr (num_images_per_row, num_images_per_col) \<Rightarrow>
                        case clamp_scale original_image_w original_image_h max_thumb_size
                               num_images_per_row num_images_per_col scale_factor of
                          Inl e \<Rightarrow> Raised e g1
                        | Inr scale_factor \<Rightarrow>
                            let thumb_w = real_of_int original_image_w * scale_factor;
                                thumb_h = real_of_int original_image_h * scale_factor;
                                space_w = calculate_spacing min_margin total_available_w
                                            thumb_w num_images_per_row;
                                space_h = calculate_spacing min_margin total_available_h
                                            thumb_h num_images_per_col;
                                margins = (fst space_w, fst space_h);
                                spacing = (snd space_w, snd space_h);
                                start_pos_x = real_of_int (start_w + fst margins);
                                start_pos_y = real_of_int total_available_h - thumb_h
                                                - real_of_int (snd margins);
                                last_start_pos_x =
                                  real_of_int (start_w +
                                    \<lceil>real_of_int (fst margins) +
                                       real_of_int (num_images_per_row - 1) *
                                         (thumb_w + real_of_int (fst spacing))\<rceil>)
                            in Returned
                                 (g\<lparr>thumbnail_size := (thumb_w, thumb_h),
                                    thumbnail_images :=
                                      place_thumbnails start_pos_x
                                        (thumb_w + real_of_int (fst spacing))
                                        (thumb_h + real_of_int (snd spacing))
                                        last_start_pos_x start_pos_x start_pos_y
                                        (thumbnail_images g)\<rparr>))"

subsection \<open>\<^verbatim>\<open>load_edit_thumbnails\<close>\<close>

text \<open>
  What the loader reads from outside the module: the folder of the add-on preferences,
  \<^verbatim>\<open>os.listdir\<close> (a list of names, or the \<^verbatim>\<open>OSError\<close> it raises), \<^verbatim>\<open>load_image\<close> of
  \<^verbatim>\<open>bpy_extras\<close> (\<open>None\<close> when it returns no image), the error code of \<^verbatim>\<open>gl_load\<close>, and the
  builtin \<^verbatim>\<open>int\<close> on a string (\<open>None\<close> when it raises \<^verbatim>\<open>ValueError\<close>).
\<close>

record loader_env =
  edit_shots_folder :: string
  listdir :: "string \<Rightarrow> py_error + string list"
  load_image :: "string \<Rightarrow> string \<Rightarrow> Image option"
  gl_load :: "Image \<Rightarrow> int"
  py_int :: "string \<Rightarrow> int option"

datatype log_record =
    LogWarning string
  | LogInfoLoaded nat

text \<open>The body of the \<^verbatim>\<open>for filename in os.listdir(folder_name)\<close> loop, on the image list.
  The image is appended before its name is parsed, so a failing \<^verbatim>\<open>int\<close> leaves it in the list
  with the class's default name.\<close>

fun load_files ::
  "loader_env \<Rightarrow> string list \<Rightarrow> ThumbnailImage list \<Rightarrow> py_error \<times> ThumbnailImage list + ThumbnailImage list"
where
  "load_files env [] imgs = Inr imgs"
| "load_files env (filename # filenames) imgs =
     (let img = \<lparr>id_image = load_image env filename (edit_shots_folder env),
                 pos = (0, 0), name = None\<rparr>
      in case py_int env (takeWhile (\<lambda>ch. ch \<noteq> CHR ''.'') filename) of
           None \<Rightarrow> Inl (ValueError, imgs @ [img])
         | Some k \<Rightarrow> load_files env filenames (imgs @ [img\<lparr>name := Some k\<rparr>]))"

text \<open>\<^verbatim>\<open>thumbnail_images.sort(key=lambda x: x.name)\<close>: a stable sort on integer names; names
  that are all the default string compare equal; an integer against a string raises
  \<^verbatim>\<open>TypeError\<close> (the order CPython leaves the list in at that raise is not modelled).\<close>

definition sort_by_name :: "ThumbnailImage list \<Rightarrow> py_error + ThumbnailImage list" where
  "sort_by_name imgs =
     (if list_all (\<lambda>img. name img \<noteq> None) imgs
      then Inr (sort_key (\<lambda>img. the (name img)) imgs)
      else if list_all (\<lambda>img. name img = None) imgs then Inr imgs
      else Inl TypeError)"

text \<open>The loop \<^verbatim>\<open>for img in thumbnail_images: if img.id_image.gl_load(): raise Exception()\<close>.\<close>

fun gl_load_all :: "loader_env \<Rightarrow> ThumbnailImage list \<Rightarrow> py_error option" where
  "gl_load_all env [] = None"
| "gl_load_all env (img # imgs) =
     (case id_image img of
        None \<Rightarrow> Some AttributeError
      | Some im \<Rightarrow> if gl_load env im \<noteq> 0 then Some Exception else gl_load_all env imgs)"

definition folder_warning :: "string \<Rightarrow> string" where
  "folder_warning folder_name =
     ''Reading thumbnail images from '' @ [CHR 0x27] @ folder_name @ [CHR 0x27] @
     '' failed: folder does not exist.''"

definition load_edit_thumbnails ::
  "loader_env \<Rightarrow> addon_globals \<Rightarrow> addon_globals outcome \<times> log_record list" where
  "load_edit_thumbnails env g =
     (let folder_name = edit_shots_folder env;
          tried =
            (case listdir env folder_name of
               Inl FileNotFoundError \<Rightarrow> Inr (thumbnail_images g, [LogWarning (folder_warning folder_name)])
             | Inl e \<Rightarrow> Inl (e, thumbnail_images g)
             | Inr filenames \<Rightarrow>
                 (case load_files env filenames (thumbnail_images g) of
                    Inl (e, imgs) \<Rightarrow> Inl (e, imgs)
                  | Inr imgs \<Rightarrow> Inr (imgs, [])))
      in case tried of
           Inl (e, imgs) \<Rightarrow> (Raised e (g\<lparr>thumbnail_images := imgs\<rparr>), [])
         | Inr (imgs, logged) \<Rightarrow>
             (case sort_by_name imgs of
                Inl e \<Rightarrow> (Raised e (g\<lparr>thumbnail_images := imgs\<rparr>), logged)
              | Inr sorted_imgs \<Rightarrow>
                  (case gl_load_all env sorted_imgs of
                     Some e \<Rightarrow> (Raised e (g\<lparr>thumbnail_images := sorted_imgs\<rparr>), logged)
                   | None \<Rightarrow>
                       (Returned (g\<lparr>thumbnail_images := sorted_imgs\<rparr>),
                        logged @ [LogInfoLoaded (length sorted_imgs)]))))"

subsection \<open>Vocabulary of the statements\<close>

text \<open>A chrome region counts when it is of the given type and larger than one pixel.\<close>

definition header_shown :: "Region \<Rightarrow> bool" where
  "header_shown r \<longleftrightarrow> rtype r = ''HEADER'' \<and> height r > 1"

definition ui_shown :: "Region \<Rightarrow> bool" where
  "ui_shown r \<longleftrightarrow> rtype r = ''UI'' \<and> width r > 1"

definition tools_shown :: "Region \<Rightarrow> bool" where
  "tools_shown r \<longleftrightarrow> rtype r = ''TOOLS'' \<and> width r > 1"

definition last_width :: "int \<Rightarrow> Region list \<Rightarrow> int" where
  "last_width d rs = (case rs of [] \<Rightarrow> d | _ # _ \<Rightarrow> width (last rs))"


section \<open>Region sizing\<close>

lemma discount_region_step:
  "discount_region (w, h, s) r =
     (w - (if ui_shown r then width r else 0) - (if tools_shown r then width r else 0),
      h - (if header_shown r then height r else 0),
      if tools_shown r then width r else s)"
  by (simp add: discount_region_def header_shown_def ui_shown_def tools_shown_def Let_def)

lemma foldl_discount_region:
  "foldl discount_region (w, h, s) rs =
     (w - sum_list (map width (filter ui_shown rs)) - sum_list (map width (filter tools_shown rs)),
      h - sum_list (map height (filter header_shown rs)),
      last_width s (filter tools_shown rs))"
proof (induction rs arbitrary: w h s)
  case Nil
  show ?case by (simp add: last_width_def)
next
  case (Cons r rs)
  show ?case
    by (simp add: Cons.IH discount_region_step last_width_def split: list.split)
qed

text \<open>
  Claim C7. With region overlap on, the usable height is the raw height minus the height of
  every HEADER region higher than one pixel, the usable width is the raw width minus the
  width of every UI region and of every TOOLS region wider than one pixel, and the left
  offset is the width of the TOOLS region wider than one pixel (of the last one if the area
  has several; zero if it has none). Regions of one pixel or less are not counted. With
  region overlap off, the raw size comes back with offset zero. The step is a total
  function: it has a value for every context, also a negative one.
\<close>

theorem region_sizing_usable:
  "(use_region_overlap c \<longrightarrow>
      region_sizing c =
        (region_width c - sum_list (map width (filter ui_shown (area_regions c)))
                        - sum_list (map width (filter tools_shown (area_regions c))),
         region_height c - sum_list (map height (filter header_shown (area_regions c))),
         last_width 0 (filter tools_shown (area_regions c)))) \<and>
   (\<not> use_region_overlap c \<longrightarrow>
      region_sizing c = (region_width c, region_height c, 0))"
  by (simp add: region_sizing_def foldl_discount_region)

theorem region_sizing_usable_witness:
  "region_sizing
     \<lparr>region_width = 1000, region_height = 600, use_region_overlap = True,
      area_regions =
        [\<lparr>rtype = ''HEADER'', width = 1000, height = 26\<rparr>,
         \<lparr>rtype = ''TOOLS'', width = 50, height = 574\<rparr>,
         \<lparr>rtype = ''UI'', width = 300, height = 574\<rparr>,
         \<lparr>rtype = ''TOOL_HEADER'', width = 1000, height = 1\<rparr>,
         \<lparr>rtype = ''HUD'', width = 1, height = 1\<rparr>]\<rparr> = (650, 574, 50) \<and>
   region_sizing
     \<lparr>region_width = 100, region_height = 20, use_region_overlap = True,
      area_regions =
        [\<lparr>rtype = ''HEADER'', width = 100, height = 26\<rparr>,
         \<lparr>rtype = ''UI'', width = 1, height = 1\<rparr>]\<rparr> = (100, - 6, 0) \<and>
   region_sizing
     \<lparr>region_width = 1000, region_height = 600, use_region_overlap = False,
      area_regions =
        [\<lparr>rtype = ''HEADER'', width = 1000, height = 26\<rparr>,
         \<lparr>rtype = ''TOOLS'', width = 50, height = 574\<rparr>]\<rparr> = (1000, 600, 0)"
  using
    region_sizing_usable
      [of "\<lparr>region_width = 1000, region_height = 600, use_region_overlap = True,
            area_regions =
              [\<lparr>rtype = ''HEADER'', width = 1000, height = 26\<rparr>,
               \<lparr>rtype = ''TOOLS'', width = 50, height = 574\<rparr>,
               \<lparr>rtype = ''UI'', width = 300, height = 574\<rparr>,
               \<lparr>rtype = ''TOOL_HEADER'', width = 1000, height = 1\<rparr>,
               \<lparr>rtype = ''HUD'', width = 1, height = 1\<rparr>]\<rparr>"]
    region_sizing_usable
      [of "\<lparr>region_width = 100, region_height = 20, use_region_overlap = True,
            area_regions =
              [\<lparr>rtype = ''HEADER'', width = 100, height = 26\<rparr>,
               \<lparr>rtype = ''UI'', width = 1, height = 1\<rparr>]\<rparr>"]
    region_sizing_usable
      [of "\<lparr>region_width = 1000, region_height = 600, use_region_overlap = False,
            area_regions =
              [\<lparr>rtype = ''HEADER'', width = 1000, height = 26\<rparr>,
               \<lparr>rtype = ''TOOLS'', width = 50, height = 574\<rparr>]\<rparr>"]
  by (simp add: header_shown_def ui_shown_def tools_shown_def last_width_def)

section \<open>Spacing and margins\<close>



section \<open>The early returns of the layout\<close>

text \<open>
  Claim C8. With no image the layout returns at once: no exception is raised and the list
  of images, hence of positions, is empty at the return.
\<close>

theorem no_images_early_out:
  "thumbnail_images g = [] \<Longrightarrow>
     returned (fit_thumbnails_in_region c g) \<and>
     thumbnail_images (globals_of (fit_thumbnails_in_region c g)) = []"
  by (simp add: fit_thumbnails_in_region_def)

theorem no_images_early_out_witness:
  "returned (fit_thumbnails_in_region
       \<lparr>region_width = 1000, region_height = 600, use_region_overlap = False, area_regions = []\<rparr>
       \<lparr>thumbnail_images = [], thumbnail_size = (320, 180)\<rparr>) \<and>
   thumbnail_images (globals_of (fit_thumbnails_in_region
       \<lparr>region_width = 1000, region_height = 600, use_region_overlap = False, area_regions = []\<rparr>
       \<lparr>thumbnail_images = [], thumbnail_size = (320, 180)\<rparr>)) = []"
  using no_images_early_out
    [of "\<lparr>thumbnail_images = [], thumbnail_size = (320, 180)\<rparr>"
        "\<lparr>region_width = 1000, region_height = 600, use_region_overlap = False,
          area_regions = []\<rparr>"]
  by simp

lemma small_area_returns:
  assumes "thumbnail_images g \<noteq> []"
    and "id_image (hd (thumbnail_images g)) = Some im"
    and "snd (image_size im) \<noteq> 0"
    and "region_sizing c = (W, H, sw)"
    and "real_of_int ((W - fst total_spacing) * (H - snd total_spacing))
           / real_of_int (int (length (thumbnail_images g))) < 20"
  shows "fit_thumbnails_in_region c g = Returned (g\<lparr>thumbnail_size := (0, 0)\<rparr>)"
  using assms by (simp add: fit_thumbnails_in_region_def Let_def)

text \<open>
  Claim C5. When there is an image, the first image is loaded with a height other than zero
  (line 316 divides by it before the area is looked at), and the area per image
  \<open>(available_w * available_h) / num_images\<close> is below 20, the layout sets the shared
  thumbnail size to \<open>(0, 0)\<close> and returns.
\<close>

theorem small_area_zero_size:
  assumes "thumbnail_images g \<noteq> []"
    and "id_image (hd (thumbnail_images g)) = Some im"
    and "snd (image_size im) \<noteq> 0"
    and "region_sizing c = (W, H, sw)"
    and "real_of_int ((W - fst total_spacing) * (H - snd total_spacing))
           / real_of_int (int (length (thumbnail_images g))) < 20"
  shows "returned (fit_thumbnails_in_region c g) \<and>
         thumbnail_size (globals_of (fit_thumbnails_in_region c g)) = (0, 0)"
  using small_area_returns [OF assms] by simp

theorem small_area_zero_size_witness:
  "returned (fit_thumbnails_in_region
       \<lparr>region_width = 154, region_height = 154, use_region_overlap = False, area_regions = []\<rparr>
       \<lparr>thumbnail_images =
          [\<lparr>id_image = Some \<lparr>image_size = (200, 100)\<rparr>, pos = (7, 9), name = Some 1\<rparr>],
        thumbnail_size = (320, 160)\<rparr>) \<and>
   thumbnail_size (globals_of (fit_thumbnails_in_region
       \<lparr>region_width = 154, region_height = 154, use_region_overlap = False, area_regions = []\<rparr>
       \<lparr>thumbnail_images =
          [\<lparr>id_image = Some \<lparr>image_size = (200, 100)\<rparr>, pos = (7, 9), name = Some 1\<rparr>],
        thumbnail_size = (320, 160)\<rparr>)) = (0, 0)"
  using small_area_zero_size
    [of "\<lparr>thumbnail_images =
            [\<lparr>id_image = Some \<lparr>image_size = (200, 100)\<rparr>, pos = (7, 9), name = Some 1\<rparr>],
          thumbnail_size = (320, 160)\<rparr>"
        "\<lparr>image_size = (200, 100)\<rparr>"
        "\<lparr>region_width = 154, region_height = 154, use_region_overlap = False,
          area_regions = []\<rparr>"
        154 154 0]
  by (simp add: region_sizing_def total_spacing_def)

text \<open>
  Claim C10. Both early returns leave every image, and so every position, as it was. The
  return for an empty list leaves the globals as they were, the thumbnail size included.
  The return for an area per image below 20 changes the thumbnail size to \<open>(0, 0)\<close> and
  nothing else.
\<close>

theorem early_out_frame:
  "(thumbnail_images g = [] \<longrightarrow> fit_thumbnails_in_region c g = Returned g) \<and>
   (thumbnail_images g \<noteq> [] \<and> id_image (hd (thumbnail_images g)) = Some im \<and>
    snd (image_size im) \<noteq> 0 \<and> region_sizing c = (W, H, sw) \<and>
    real_of_int ((W - fst total_spacing) * (H - snd total_spacing))
      / real_of_int (int (length (thumbnail_images g))) < 20 \<longrightarrow>
      returned (fit_thumbnails_in_region c g) \<and>
      thumbnail_images (globals_of (fit_thumbnails_in_region c g)) = thumbnail_images g \<and>
      thumbnail_size (globals_of (fit_thumbnails_in_region c g)) = (0, 0))"
proof (intro conjI impI)
  assume "thumbnail_images g = []"
  then show "fit_thumbnails_in_region c g = Returned g"
    by (simp add: fit_thumbnails_in_region_def)
next
  assume a: "thumbnail_images g \<noteq> [] \<and> id_image (hd (thumbnail_images g)) = Some im \<and>
    snd (image_size im) \<noteq> 0 \<and> region_sizing c = (W, H, sw) \<and>
    real_of_int ((W - fst total_spacing) * (H - snd total_spacing))
      / real_of_int (int (length (thumbnail_images g))) < 20"
  then have r: "fit_thumbnails_in_region c g = Returned (g\<lparr>thumbnail_size := (0, 0)\<rparr>)"
    by (intro small_area_returns) auto
  show "returned (fit_thumbnails_in_region c g)" by (simp add: r)
  show "thumbnail_images (globals_of (fit_thumbnails_in_region c g)) = thumbnail_images g"
    by (simp add: r)
  show "thumbnail_size (globals_of (fit_thumbnails_in_region c g)) = (0, 0)"
    by (simp add: r)
qed

theorem early_out_frame_witness:
  "fit_thumbnails_in_region
       \<lparr>region_width = 1000, region_height = 600, use_region_overlap = False, area_regions = []\<rparr>
       \<lparr>thumbnail_images = [], thumbnail_size = (320, 180)\<rparr> =
     Returned \<lparr>thumbnail_images = [], thumbnail_size = (320, 180)\<rparr> \<and>
   thumbnail_images (globals_of (fit_thumbnails_in_region
       \<lparr>region_width = 150, region_height = 600, use_region_overlap = False, area_regions = []\<rparr>
       \<lparr>thumbnail_images =
          [\<lparr>id_image = Some \<lparr>image_size = (200, 100)\<rparr>, pos = (62, 81), name = Some 1\<rparr>,
           \<lparr>id_image = Some \<lparr>image_size = (200, 100)\<rparr>, pos = (62, 40), name = Some 2\<rparr>],
        thumbnail_size = (320, 160)\<rparr>)) =
     [\<lparr>id_image = Some \<lparr>image_size = (200, 100)\<rparr>, pos = (62, 81), name = Some 1\<rparr>,
      \<lparr>id_image = Some \<lparr>image_size = (200, 100)\<rparr>, pos = (62, 40), name = Some 2\<rparr>] \<and>
   thumbnail_size (globals_of (fit_thumbnails_in_region
       \<lparr>region_width = 150, region_height = 600, use_region_overlap = False, area_regions = []\<rparr>
       \<lparr>thumbnail_images =
          [\<lparr>id_image = Some \<lparr>image_size = (200, 100)\<rparr>, pos = (62, 81), name = Some 1\<rparr>,
           \<lparr>id_image = Some \<lparr>image_size = (200, 100)\<rparr>, pos = (62, 40), name = Some 2\<rparr>],
        thumbnail_size = (320, 160)\<rparr>)) = (0, 0)"
  using
    early_out_frame
      [of "\<lparr>thumbnail_images = [], thumbnail_size = (320, 180)\<rparr>"
          "\<lparr>region_width = 1000, region_height = 600, use_region_overlap = False,
            area_regions = []\<rparr>"]
    early_out_frame
      [of "\<lparr>thumbnail_images =
              [\<lparr>id_image = Some \<lparr>image_size = (200, 100)\<rparr>, pos = (62, 81), name = Some 1\<rparr>,
               \<lparr>id_image = Some \<lparr>image_size = (200, 100)\<rparr>, pos = (62, 40), name = Some 2\<rparr>],
            thumbnail_size = (320, 160)\<rparr>"
          "\<lparr>region_width = 150, region_height = 600, use_region_overlap = False,
            area_regions = []\<rparr>"
          "\<lparr>image_size = (200, 100)\<rparr>"
          150 600 0]
  by (simp add: region_sizing_def total_spacing_def)

section \<open>The loader\<close>

text \<open>
  Claim C9. When \<^verbatim>\<open>os.listdir\<close> raises \<^verbatim>\<open>FileNotFoundError\<close> for the configured folder and
  the image list is empty at the call (both callers see to that), the loader returns
  without raising, logs the warning and then the count of 0 images, and leaves the globals
  as they were, the image list empty; the layout that follows returns the same globals.
\<close>

theorem missing_folder_recovered:
  assumes "listdir env (edit_shots_folder env) = Inl FileNotFoundError"
    and "thumbnail_images g = []"
  shows "load_edit_thumbnails env g =
           (Returned g, [LogWarning (folder_warning (edit_shots_folder env)), LogInfoLoaded 0]) \<and>
         fit_thumbnails_in_region c g = Returned g"
  using assms
  by (simp add: load_edit_thumbnails_def sort_by_name_def fit_thumbnails_in_region_def Let_def)

theorem missing_folder_recovered_witness:
  "load_edit_thumbnails
     \<lparr>edit_shots_folder = ''/no/such/dir'',
      listdir = (\<lambda>d. if d = ''/shots'' then Inr [''2.png'', ''1.png''] else Inl FileNotFoundError),
      load_image = (\<lambda>f d. Some \<lparr>image_size = (200, 100)\<rparr>),
      gl_load = (\<lambda>im. 0),
      py_int = (\<lambda>s. if s = ''1'' then Some 1 else if s = ''2'' then Some 2 else None)\<rparr>
     \<lparr>thumbnail_images = [], thumbnail_size = (0, 0)\<rparr> =
     (Returned \<lparr>thumbnail_images = [], thumbnail_size = (0, 0)\<rparr>,
      [LogWarning (folder_warning ''/no/such/dir''), LogInfoLoaded 0]) \<and>
   fit_thumbnails_in_region
     \<lparr>region_width = 1000, region_height = 600, use_region_overlap = False, area_regions = []\<rparr>
     \<lparr>thumbnail_images = [], thumbnail_size = (0, 0)\<rparr> =
     Returned \<lparr>thumbnail_images = [], thumbnail_size = (0, 0)\<rparr>"
  using missing_folder_recovered
    [of "\<lparr>edit_shots_folder = ''/no/such/dir'',
           listdir = (\<lambda>d. if d = ''/shots'' then Inr [''2.png'', ''1.png'']
                           else Inl FileNotFoundError),
           load_image = (\<lambda>f d. Some \<lparr>image_size = (200, 100)\<rparr>),
           gl_load = (\<lambda>im. 0),
           py_int = (\<lambda>s. if s = ''1'' then Some 1 else if s = ''2'' then Some 2 else None)\<rparr>"
        "\<lparr>thumbnail_images = [], thumbnail_size = (0, 0)\<rparr>"
        "\<lparr>region_width = 1000, region_height = 600, use_region_overlap = False,
          area_regions = []\<rparr>"]
  by simp

section \<open>The full path of the layout\<close>
















section \<open>The clamp against the largest thumbnail size\<close>








section \<open>A single image\<close>




section \<open>A wider region\<close>




section \<open>The positions\<close>










text \<open>
  Outside the hypotheses above: in a usable region of 149 by 50 both available lengths are
  negative, the area per image is 100, the estimate gives \<open>ceil(-1 / 10) = 0\<close> images per
  row, and line 332 divides by it.
\<close>

lemma tiny_region_raises:
  "fit_thumbnails_in_region
     \<lparr>region_width = 149, region_height = 50, use_region_overlap = False, area_regions = []\<rparr>
     \<lparr>thumbnail_images = [\<lparr>id_image = Some \<lparr>image_size = (1, 1)\<rparr>, pos = (0, 0), name = Some 1\<rparr>],
      thumbnail_size = (0, 0)\<rparr> =
   Raised ZeroDivisionError
     \<lparr>thumbnail_images = [\<lparr>id_image = Some \<lparr>image_size = (1, 1)\<rparr>, pos = (0, 0), name = Some 1\<rparr>],
      thumbnail_size = (10, 10)\<rparr>"
proof -
  have 1: "initial_scale 1 1 100 = Inr 10" by (simp add: initial_scale_def)
  have "\<lceil>- (1 / 10) :: real\<rceil> = 0" by (simp add: ceiling_eq_iff)
  then have 2: "grid_dims (- 1) 1 10 = Inl ZeroDivisionError" by (simp add: grid_dims_def)
  show ?thesis
    using 1 2
    by (simp add: fit_thumbnails_in_region_def region_sizing_def total_spacing_def min_margin_def
        Let_def)
qed

end
